theory Spec2Isabelle
  imports Main
begin

section \<open>JavaScript values, JSON and exceptions\<close>

text \<open>
  The server (\<^verbatim>\<open>src/index.js\<close>) reads the value that \<^verbatim>\<open>pool.query\<close> resolves with
  and hands an object literal to \<^verbatim>\<open>res.json\<close>. A value the driver hands back is a finite
  tree: \<^verbatim>\<open>undefined\<close>, \<^verbatim>\<open>null\<close>, a boolean, a number (integer-valued ones are
  modelled), a string, a \<^verbatim>\<open>Date\<close> (carried as the ISO string its \<^verbatim>\<open>toJSON\<close> yields,
  or \<open>None\<close> for an invalid date), an array or a plain object (own enumerable
  properties in insertion order).
\<close>

datatype jsval =
    VUndefined
  | VNull
  | VBool bool
  | VNum int
  | VStr string
  | VDate "string option"
  | VArr "jsval list"
  | VObj "(string \<times> jsval) list"

text \<open>JSON text as a tree: what \<^verbatim>\<open>JSON.stringify\<close> writes and \<^verbatim>\<open>response.json()\<close> parses.\<close>

datatype json =
    JNull
  | JBool bool
  | JNum int
  | JStr string
  | JArr "json list"
  | JObj "(string \<times> json) list"

text \<open>
  An exception is an \<^verbatim>\<open>Error\<close> instance, carried by its \<^verbatim>\<open>message\<close>: the database
  driver rejects with \<^verbatim>\<open>Error\<close> objects, the runtime raises \<^verbatim>\<open>TypeError\<close>s, the client
  constructs \<^verbatim>\<open>new Error(...)\<close>. Reading \<^verbatim>\<open>error.message\<close> is the selector \<open>message\<close>.
\<close>

datatype error = Error (message: string)

text \<open>Sequencing of steps that may throw: the first exception ends the block.\<close>

definition bind :: "error + 'a \<Rightarrow> ('a \<Rightarrow> error + 'b) \<Rightarrow> error + 'b" where
  "bind m f = (case m of Inl e \<Rightarrow> Inl e | Inr x \<Rightarrow> f x)"

text \<open>\<^verbatim>\<open>try { body } catch (error) { handler }\<close>: an exception of the body runs the handler.\<close>

definition try_catch :: "error + 'a \<Rightarrow> (error \<Rightarrow> error + 'a) \<Rightarrow> error + 'a" where
  "try_catch body handler = (case body of Inl e \<Rightarrow> handler e | Inr x \<Rightarrow> Inr x)"

text \<open>
  A settled promise, and \<^verbatim>\<open>await\<close> on it: the value it resolved with, or the error it
  rejected with, thrown.
\<close>

datatype 'a promise = Resolved 'a | Rejected error

fun await :: "'a promise \<Rightarrow> error + 'a" where
  "await (Resolved v) = Inr v"
| "await (Rejected e) = Inl e"

subsection \<open>Decimal rendering of numbers\<close>

definition digit_char :: "nat \<Rightarrow> char" where
  "digit_char d = char_of (48 + d)"

fun show_nat :: "nat \<Rightarrow> string" where
  "show_nat n = (if n < 10 then [digit_char n] else show_nat (n div 10) @ [digit_char (n mod 10)])"

declare show_nat.simps [simp del]

definition show_int :: "int \<Rightarrow> string" where
  "show_int i = (if i < 0 then CHR ''-'' # show_nat (nat (- i)) else show_nat (nat i))"

subsection \<open>Property reads\<close>

text \<open>
  The wording of the \<^verbatim>\<open>TypeError\<close>s is that of V8, the engine of Node.js.
  \<open>nullish_name\<close> is how the engine prints the two values that have no properties.
\<close>

fun nullish_name :: "jsval \<Rightarrow> string option" where
  "nullish_name VUndefined = Some ''undefined''"
| "nullish_name VNull = Some ''null''"
| "nullish_name _ = None"

definition read_error :: "string \<Rightarrow> string \<Rightarrow> error" where
  "read_error what key =
     Error (''Cannot read properties of '' @ what @ '' (reading '' @ [CHR 0x27] @ key @ [CHR 0x27] @ '')'')"

definition destructure_error :: "string \<Rightarrow> string \<Rightarrow> error" where
  "destructure_error what key =
     Error (''Cannot destructure property '' @ [CHR 0x27] @ key @ [CHR 0x27] @ '' of '' @ [CHR 0x27]
            @ ''(intermediate value)'' @ [CHR 0x27] @ '' as it is '' @ what @ ''.'')"

text \<open>
  \<^verbatim>\<open>v.key\<close> for a property name that no built-in prototype defines (\<^verbatim>\<open>rows\<close>,
  \<^verbatim>\<open>server_time\<close>): \<^verbatim>\<open>undefined\<close> and \<^verbatim>\<open>null\<close> throw, an object yields its own
  property or \<^verbatim>\<open>undefined\<close>, every other value yields \<^verbatim>\<open>undefined\<close>.
\<close>

fun own_property :: "jsval \<Rightarrow> string \<Rightarrow> jsval" where
  "own_property (VObj ps) key = (case map_of ps key of Some v \<Rightarrow> v | None \<Rightarrow> VUndefined)"
| "own_property _ key = VUndefined"

definition get_property :: "jsval \<Rightarrow> string \<Rightarrow> error + jsval" where
  "get_property v key =
     (case nullish_name v of
        Some what \<Rightarrow> Inl (read_error what key)
      | None \<Rightarrow> Inr (own_property v key))"

text \<open>
  \<^verbatim>\<open>v[i]\<close> for an index \<open>i\<close>: an array yields its element or \<^verbatim>\<open>undefined\<close> past the
  end, a string its \<open>i\<close>-th character as a string, an object its property named by the
  decimal digits of \<open>i\<close>.
\<close>

fun element :: "jsval \<Rightarrow> nat \<Rightarrow> jsval" where
  "element (VArr xs) i = (if i < length xs then xs ! i else VUndefined)"
| "element (VStr s) i = (if i < length s then VStr [s ! i] else VUndefined)"
| "element (VObj ps) i = own_property (VObj ps) (show_nat i)"
| "element _ i = VUndefined"

definition get_index :: "jsval \<Rightarrow> nat \<Rightarrow> error + jsval" where
  "get_index v i =
     (case nullish_name v of
        Some what \<Rightarrow> Inl (read_error what (show_nat i))
      | None \<Rightarrow> Inr (element v i))"

text \<open>\<^verbatim>\<open>const { key } = v\<close>: destructuring \<^verbatim>\<open>undefined\<close> or \<^verbatim>\<open>null\<close> throws.\<close>

definition destructure :: "jsval \<Rightarrow> string \<Rightarrow> error + jsval" where
  "destructure v key =
     (case nullish_name v of
        Some what \<Rightarrow> Inl (destructure_error what key)
      | None \<Rightarrow> Inr (own_property v key))"

subsection \<open>\<^verbatim>\<open>JSON.stringify\<close>\<close>

text \<open>
  A property whose value is \<^verbatim>\<open>undefined\<close> is left out of an object, an \<^verbatim>\<open>undefined\<close>
  array element is written \<^verbatim>\<open>null\<close>, a \<^verbatim>\<open>Date\<close> is written as its ISO string (an invalid
  one as \<^verbatim>\<open>null\<close>); \<^verbatim>\<open>JSON.stringify(undefined)\<close> is \<^verbatim>\<open>undefined\<close>, here \<open>None\<close>.
\<close>

fun stringify :: "jsval \<Rightarrow> json option"
  and stringify_elements :: "jsval list \<Rightarrow> json list"
  and stringify_properties :: "(string \<times> jsval) list \<Rightarrow> (string \<times> json) list" where
  "stringify VUndefined = None"
| "stringify VNull = Some JNull"
| "stringify (VBool b) = Some (JBool b)"
| "stringify (VNum n) = Some (JNum n)"
| "stringify (VStr s) = Some (JStr s)"
| "stringify (VDate None) = Some JNull"
| "stringify (VDate (Some stamp)) = Some (JStr stamp)"
| "stringify (VArr xs) = Some (JArr (stringify_elements xs))"
| "stringify (VObj ps) = Some (JObj (stringify_properties ps))"
| "stringify_elements [] = []"
| "stringify_elements (x # xs) =
     (case stringify x of None \<Rightarrow> JNull | Some j \<Rightarrow> j) # stringify_elements xs"
| "stringify_properties [] = []"
| "stringify_properties ((k, v) # ps) =
     (case stringify v of None \<Rightarrow> stringify_properties ps
      | Some j \<Rightarrow> (k, j) # stringify_properties ps)"

text \<open>The value of a field of a JSON object, and whether the object has the field.\<close>

fun field :: "json \<Rightarrow> string \<Rightarrow> json option" where
  "field (JObj ps) key = map_of ps key"
| "field _ key = None"

definition has_field :: "json \<Rightarrow> string \<Rightarrow> bool" where
  "has_field j key = (field j key \<noteq> None)"

section \<open>The server: \<^verbatim>\<open>src/index.js\<close>\<close>

subsection \<open>Configuration\<close>

text \<open>
  \<^verbatim>\<open>const { ..., DB_NAME = "postgres" } = process.env\<close>: a default applies when the
  variable is not set. The handler reads \<open>DB_NAME\<close>; the other settings go to the pool.
\<close>

record config =
  DB_HOST :: string
  DB_USER :: string
  DB_PASSWORD :: string
  DB_NAME :: string

definition env_or :: "(string \<rightharpoonup> string) \<Rightarrow> string \<Rightarrow> string \<Rightarrow> string" where
  "env_or env name dflt = (case env name of None \<Rightarrow> dflt | Some v \<Rightarrow> v)"

definition load_config :: "(string \<rightharpoonup> string) \<Rightarrow> config" where
  "load_config env =
     \<lparr>DB_HOST = env_or env ''DB_HOST'' ''localhost'',
      DB_USER = env_or env ''DB_USER'' ''postgres'',
      DB_PASSWORD = env_or env ''DB_PASSWORD'' ''postgres'',
      DB_NAME = env_or env ''DB_NAME'' ''postgres''\<rparr>"

subsection \<open>The request, the response object and the console\<close>

text \<open>
  The route answers \<^verbatim>\<open>GET\<close> requests, and \<^verbatim>\<open>HEAD\<close> requests with them. Of the headers
  of a request Express reads \<^verbatim>\<open>If-None-Match\<close> (absent, \<^verbatim>\<open>*\<close>, or a list of entity tags)
  and whether \<^verbatim>\<open>Cache-Control\<close> says \<^verbatim>\<open>no-cache\<close>. The entity tag Express gives a response
  is a hash of its body; a tag is modelled by the body it was taken from, so that two tags
  are equal exactly when the bodies are. \<^verbatim>\<open>If-Modified-Since\<close> is left out: the responses
  of this handler carry no \<^verbatim>\<open>Last-Modified\<close>, so on its own the header makes none of them
  fresh.
\<close>

datatype http_method = GET | HEAD

datatype none_match = NoneMatchAbsent | NoneMatchAny | NoneMatchTags "json option list"

record request =
  req_method :: http_method
  if_none_match :: none_match
  no_cache :: bool

text \<open>
  The freshness test of Express (\<^verbatim>\<open>req.fresh\<close>): only a response with a status code
  from 200 to 299, or 304, can be fresh; then a request without \<^verbatim>\<open>If-None-Match\<close> or
  with \<^verbatim>\<open>no-cache\<close> is stale, one with \<^verbatim>\<open>*\<close> is fresh, and one with tags is fresh when
  one of them is the tag of the body.
\<close>

definition fresh_headers :: "request \<Rightarrow> json option \<Rightarrow> bool" where
  "fresh_headers rq body =
     (case if_none_match rq of
        NoneMatchAbsent \<Rightarrow> False
      | NoneMatchAny \<Rightarrow> \<not> no_cache rq
      | NoneMatchTags tagged \<Rightarrow> \<not> no_cache rq \<and> body \<in> set tagged)"

definition req_fresh :: "request \<Rightarrow> nat \<Rightarrow> json option \<Rightarrow> bool" where
  "req_fresh rq code body =
     ((200 \<le> code \<and> code < 300 \<or> code = 304) \<and> fresh_headers rq body)"

text \<open>What goes over the wire: a status code and a body, or no body.\<close>

record http_response =
  http_status :: nat
  http_body :: "json option"

text \<open>
  \<^verbatim>\<open>res.send\<close>, which \<^verbatim>\<open>res.json\<close> ends in: a fresh request is answered with status
  304; a response with status 204 or 304, and every response to a \<^verbatim>\<open>HEAD\<close> request, goes
  out without its body.
\<close>

definition res_send :: "request \<Rightarrow> nat \<Rightarrow> json option \<Rightarrow> http_response" where
  "res_send rq code body =
     (let code' = (if req_fresh rq code body then 304 else code)
      in \<lparr>http_status = code',
          http_body = (if code' = 204 \<or> code' = 304 \<or> req_method rq = HEAD then None else body)\<rparr>)"

text \<open>
  What Express hands to a route handler: the request, and as \<^verbatim>\<open>res\<close> a status code, 200
  until \<^verbatim>\<open>res.status\<close> changes it, and the response sent, if any. \<^verbatim>\<open>res.json(v)\<close> sends
  \<^verbatim>\<open>JSON.stringify(v)\<close> through \<^verbatim>\<open>res.send\<close> under the current status code; sending
  twice throws. \<open>console\<close> holds the lines \<^verbatim>\<open>console.error\<close> has written.
\<close>

record handler_state =
  req :: request
  statusCode :: nat
  sent :: "http_response option"
  console :: "(string \<times> error) list"

definition fresh :: "request \<Rightarrow> (string \<times> error) list \<Rightarrow> handler_state" where
  "fresh rq log = \<lparr>req = rq, statusCode = 200, sent = None, console = log\<rparr>"

definition res_status :: "nat \<Rightarrow> handler_state \<Rightarrow> handler_state" where
  "res_status code s = s\<lparr>statusCode := code\<rparr>"

definition res_json :: "jsval \<Rightarrow> handler_state \<Rightarrow> error + handler_state" where
  "res_json v s =
     (case sent s of
        Some _ \<Rightarrow> Inl (Error ''Cannot set headers after they are sent to the client'')
      | None \<Rightarrow>
          (let r = res_send (req s) (statusCode s) (stringify v)
           in Inr (s\<lparr>statusCode := http_status r, sent := Some r\<rparr>)))"

definition console_error :: "string \<Rightarrow> error \<Rightarrow> handler_state \<Rightarrow> handler_state" where
  "console_error text e s = s\<lparr>console := console s @ [(text, e)]\<rparr>"

subsection \<open>The probe and the handler of \<^verbatim>\<open>GET /db-check\<close>\<close>

text \<open>
  \<^verbatim>\<open>await pool.query("SELECT NOW() AS server_time")\<close> either resumes with the value the
  promise resolved with or throws the error it rejected with.
\<close>

type_synonym probe_outcome = "jsval promise"

text \<open>The object literal of the success branch, its property reads in source order.\<close>

definition ok_envelope :: "config \<Rightarrow> jsval \<Rightarrow> error + jsval" where
  "ok_envelope cfg rows =
     bind (get_index rows 0) (\<lambda>row.
     bind (get_property row ''server_time'') (\<lambda>server_time.
     Inr (VObj [(''status'', VStr ''ok''),
                (''database'', VStr (DB_NAME cfg)),
                (''serverTime'', server_time)])))"

definition error_envelope :: "error \<Rightarrow> jsval" where
  "error_envelope e = VObj [(''status'', VStr ''error''), (''message'', VStr (message e))]"

definition db_check :: "config \<Rightarrow> probe_outcome \<Rightarrow> handler_state \<Rightarrow> error + handler_state" where
  "db_check cfg outcome s =
     try_catch
       (bind (await outcome) (\<lambda>result.
        bind (destructure result ''rows'') (\<lambda>rows.
        bind (ok_envelope cfg rows) (\<lambda>envelope.
        res_json envelope s))))
       (\<lambda>e. res_json (error_envelope e)
              (res_status 500 (console_error ''Database check failed'' e s)))"

subsection \<open>Requests in sequence\<close>

text \<open>
  Express creates a new \<^verbatim>\<open>res\<close> for each request and runs the handler on it; the
  console belongs to the process and outlives the request. \<open>serve\<close> answers a list of
  requests one after the other, each with the outcome of its own probe. Before its
  \<^verbatim>\<open>await\<close> the handler does nothing but issue the probe, and the rest of a handler runs
  to its end before another one resumes; so for requests in flight at the same time the
  list is in the order in which their probes settle. An exception that leaves a handler
  ends the run.
\<close>

definition handle_request ::
  "config \<Rightarrow> request \<Rightarrow> probe_outcome \<Rightarrow> (string \<times> error) list \<Rightarrow>
   error + (http_response option \<times> (string \<times> error) list)" where
  "handle_request cfg rq outcome log =
     bind (db_check cfg outcome (fresh rq log)) (\<lambda>s. Inr (sent s, console s))"

fun serve ::
  "config \<Rightarrow> (request \<times> probe_outcome) list \<Rightarrow> (string \<times> error) list \<Rightarrow>
   error + (http_response option list \<times> (string \<times> error) list)" where
  "serve cfg [] log = Inr ([], log)"
| "serve cfg ((rq, outcome) # calls) log =
     bind (handle_request cfg rq outcome log) (\<lambda>(r, log').
     bind (serve cfg calls log') (\<lambda>(rs, log'').
     Inr (r # rs, log'')))"

section \<open>The client: \<^verbatim>\<open>public/app.js\<close>\<close>

subsection \<open>\<^verbatim>\<open>JSON.stringify(payload, null, 2)\<close>\<close>

text \<open>
  The pretty printer of the platform, with a gap of two spaces: a string is quoted, with
  the quote, the backslash and the control characters escaped; the members of a non-empty
  array or object stand on lines of their own, one gap deeper than the bracket.
\<close>

definition hex_digit :: "nat \<Rightarrow> char" where
  "hex_digit d = (if d < 10 then char_of (48 + d) else char_of (87 + d))"

definition escape_char :: "char \<Rightarrow> string" where
  "escape_char c =
     (if c = CHR 0x22 then [CHR 0x5C, CHR 0x22]
      else if c = CHR 0x5C then [CHR 0x5C, CHR 0x5C]
      else if c = CHR 0x08 then [CHR 0x5C, CHR ''b'']
      else if c = CHR 0x0C then [CHR 0x5C, CHR ''f'']
      else if c = CHR 0x0A then [CHR 0x5C, CHR ''n'']
      else if c = CHR 0x0D then [CHR 0x5C, CHR ''r'']
      else if c = CHR 0x09 then [CHR 0x5C, CHR ''t'']
      else if (of_char c :: nat) < 32
        then [CHR 0x5C, CHR ''u'', CHR ''0'', CHR ''0'',
              hex_digit (of_char c div 16), hex_digit (of_char c mod 16)]
      else [c])"

definition quote :: "string \<Rightarrow> string" where
  "quote s = [CHR 0x22] @ concat (map escape_char s) @ [CHR 0x22]"

fun join :: "string \<Rightarrow> string list \<Rightarrow> string" where
  "join sep [] = []"
| "join sep [x] = x"
| "join sep (x # y # ys) = x @ sep @ join sep (y # ys)"

definition gap :: string where
  "gap = ''  ''"

definition bracketed :: "string \<Rightarrow> string \<Rightarrow> string \<Rightarrow> string list \<Rightarrow> string" where
  "bracketed l r indent parts =
     (if parts = [] then l @ r
      else l @ [CHR 0x0A] @ indent @ gap
           @ join ('','' @ [CHR 0x0A] @ indent @ gap) parts
           @ [CHR 0x0A] @ indent @ r)"

fun pretty :: "string \<Rightarrow> json \<Rightarrow> string"
  and pretty_elements :: "string \<Rightarrow> json list \<Rightarrow> string list"
  and pretty_members :: "string \<Rightarrow> (string \<times> json) list \<Rightarrow> string list" where
  "pretty indent JNull = ''null''"
| "pretty indent (JBool b) = (if b then ''true'' else ''false'')"
| "pretty indent (JNum n) = show_int n"
| "pretty indent (JStr s) = quote s"
| "pretty indent (JArr xs) = bracketed ''['' '']'' indent (pretty_elements (indent @ gap) xs)"
| "pretty indent (JObj ps) = bracketed ''{'' ''}'' indent (pretty_members (indent @ gap) ps)"
| "pretty_elements indent [] = []"
| "pretty_elements indent (x # xs) = pretty indent x # pretty_elements indent xs"
| "pretty_members indent [] = []"
| "pretty_members indent ((k, v) # ps) =
     (quote k @ '': '' @ pretty indent v) # pretty_members indent ps"

definition JSON_stringify_2 :: "json \<Rightarrow> string" where
  "JSON_stringify_2 payload = pretty [] payload"

subsection \<open>The output element\<close>

text \<open>
  An element of the page, as \<^verbatim>\<open>setStatus\<close> uses it: its class list (the tokens in
  order, none twice) and its text. \<^verbatim>\<open>classList.remove\<close> drops the tokens given,
  \<^verbatim>\<open>classList.add\<close> appends a token that is not there yet.
\<close>

record dom_node =
  classList :: "string list"
  textContent :: string

definition classList_remove :: "string list \<Rightarrow> dom_node \<Rightarrow> dom_node" where
  "classList_remove tokens node =
     node\<lparr>classList := filter (\<lambda>c. c \<notin> set tokens) (classList node)\<rparr>"

definition classList_add :: "string \<Rightarrow> dom_node \<Rightarrow> dom_node" where
  "classList_add token node =
     (if token \<in> set (classList node) then node
      else node\<lparr>classList := classList node @ [token]\<rparr>)"

text \<open>The \<^verbatim>\<open>status\<close> argument is \<^verbatim>\<open>null\<close> (\<open>None\<close>), \<^verbatim>\<open>"success"\<close> or \<^verbatim>\<open>"error"\<close>.\<close>

definition setStatus :: "dom_node \<Rightarrow> string option \<Rightarrow> string \<Rightarrow> dom_node" where
  "setStatus node status text =
     (let n1 = classList_remove [''success'', ''error''] node;
          n2 = (if status = Some ''success'' then classList_add ''success'' n1 else n1);
          n3 = (if status = Some ''error'' then classList_add ''error'' n2 else n2)
      in n3\<lparr>textContent := text\<rparr>)"

subsection \<open>\<^verbatim>\<open>fetchJSON\<close>\<close>

text \<open>
  What \<^verbatim>\<open>fetch\<close> resolves with: the flag \<^verbatim>\<open>ok\<close>, the status code and text, and
  the promise that \<^verbatim>\<open>response.json()\<close> returns (rejected when the body does not parse).
  The promise of \<^verbatim>\<open>fetch\<close> itself is rejected on a network failure.
\<close>

record response =
  ok :: bool
  status :: nat
  statusText :: string
  json :: "json promise"

text \<open>
  The script looks up its two output elements once, when it loads, and holds them in
  \<^verbatim>\<open>helloOutput\<close> and \<^verbatim>\<open>dbOutput\<close>; the document is these two elements and the console.
\<close>

record document =
  helloOutput :: dom_node
  dbOutput :: dom_node
  browser_console :: "(string \<times> error) list"

datatype element_ref = HelloOutput | DbOutput

fun node_of :: "element_ref \<Rightarrow> document \<Rightarrow> dom_node" where
  "node_of HelloOutput d = helloOutput d"
| "node_of DbOutput d = dbOutput d"

fun put_node :: "element_ref \<Rightarrow> dom_node \<Rightarrow> document \<Rightarrow> document" where
  "put_node HelloOutput node d = d\<lparr>helloOutput := node\<rparr>"
| "put_node DbOutput node d = d\<lparr>dbOutput := node\<rparr>"

text \<open>The text \<^verbatim>\<open>"Loading\<dots>"\<close> ends in the ellipsis U+2026, here its three bytes in UTF-8.\<close>

definition loading_text :: string where
  "loading_text = ''Loading'' @ [CHR 0xE2, CHR 0x80, CHR 0xA6]"

text \<open>
  \<^verbatim>\<open>fetchJSON(url, target)\<close> runs up to its first \<^verbatim>\<open>await\<close> at once
  (\<open>fetchJSON_begin\<close>: the element shows the loading text) and the rest when the fetch
  has settled (\<open>fetchJSON_resume\<close>), on the document as it is by then. Between its two
  \<^verbatim>\<open>await\<close>s the call writes nothing, so all it writes after the first one it writes in
  one go, when the last promise it waits for has settled.
\<close>

definition fetchJSON_begin :: "element_ref \<Rightarrow> document \<Rightarrow> document" where
  "fetchJSON_begin target d = put_node target (setStatus (node_of target d) None loading_text) d"

definition check_ok :: "response \<Rightarrow> error + unit" where
  "check_ok r =
     (if \<not> ok r then Inl (Error (show_nat (status r) @ '' '' @ statusText r)) else Inr ())"

definition console_error_client :: "string \<Rightarrow> error \<Rightarrow> document \<Rightarrow> document" where
  "console_error_client text e d = d\<lparr>browser_console := browser_console d @ [(text, e)]\<rparr>"

definition fetchJSON_resume ::
  "string \<Rightarrow> element_ref \<Rightarrow> response promise \<Rightarrow> document \<Rightarrow> error + document" where
  "fetchJSON_resume url target fetched d =
     try_catch
       (bind (await fetched) (\<lambda>r.
        bind (check_ok r) (\<lambda>_.
        bind (await (json r)) (\<lambda>payload.
        Inr (put_node target
               (setStatus (node_of target d) (Some ''success'') (JSON_stringify_2 payload)) d)))))
       (\<lambda>e. let d' = console_error_client (''Failed to fetch '' @ url) e d
            in Inr (put_node target (setStatus (node_of target d') (Some ''error'') (message e)) d'))"

definition fetchJSON ::
  "string \<Rightarrow> element_ref \<Rightarrow> response promise \<Rightarrow> document \<Rightarrow> error + document" where
  "fetchJSON url target fetched d = fetchJSON_resume url target fetched (fetchJSON_begin target d)"

text \<open>
  The calls of \<^verbatim>\<open>fetchJSON\<close> in the script: one per button, on a click, and one per
  element on the first paint.
\<close>

datatype trigger = Click element_ref | FirstPaint element_ref

fun call_of :: "trigger \<Rightarrow> string \<times> element_ref" where
  "call_of (Click HelloOutput) = (''/api/hello'', HelloOutput)"
| "call_of (Click DbOutput) = (''/db-check'', DbOutput)"
| "call_of (FirstPaint HelloOutput) = (''/api/hello'', HelloOutput)"
| "call_of (FirstPaint DbOutput) = (''/db-check'', DbOutput)"

section \<open>Vocabulary of the properties\<close>

text \<open>
  What the handler reads out of the outcome of the probe before it answers: the value of
  \<^verbatim>\<open>rows[0].server_time\<close>, or the exception thrown on the way (the rejection of the
  probe, or a \<^verbatim>\<open>TypeError\<close> of one of the three reads).
\<close>

definition probe_reading :: "probe_outcome \<Rightarrow> error + jsval" where
  "probe_reading outcome =
     bind (await outcome) (\<lambda>result.
     bind (destructure result ''rows'') (\<lambda>rows.
     bind (get_index rows 0) (\<lambda>row.
     get_property row ''server_time'')))"

text \<open>A healthy dependency: the three reads go through.\<close>

definition healthy :: "probe_outcome \<Rightarrow> bool" where
  "healthy outcome = (case probe_reading outcome of Inl e \<Rightarrow> False | Inr t \<Rightarrow> True)"

definition nullish :: "jsval \<Rightarrow> bool" where
  "nullish v = (nullish_name v \<noteq> None)"

text \<open>The response to a request in a process that has logged nothing yet.\<close>

definition reply :: "config \<Rightarrow> request \<Rightarrow> probe_outcome \<Rightarrow> http_response option" where
  "reply cfg rq outcome =
     (case handle_request cfg rq outcome [] of Inl e \<Rightarrow> None | Inr (r, log) \<Rightarrow> r)"

text \<open>
  A plain \<^verbatim>\<open>GET\<close> request, without conditions. The envelope of a probe outcome is the body
  of the reply to it, which is the JSON text the handler hands to \<^verbatim>\<open>res.json\<close>.
\<close>

definition plain_get :: request where
  "plain_get = \<lparr>req_method = GET, if_none_match = NoneMatchAbsent, no_cache = False\<rparr>"

definition envelope :: "config \<Rightarrow> probe_outcome \<Rightarrow> json option" where
  "envelope cfg outcome =
     (case reply cfg plain_get outcome of None \<Rightarrow> None | Some r \<Rightarrow> http_body r)"

definition envelope_field :: "config \<Rightarrow> probe_outcome \<Rightarrow> string \<Rightarrow> json option" where
  "envelope_field cfg outcome key =
     (case envelope cfg outcome of None \<Rightarrow> None | Some b \<Rightarrow> field b key)"

text \<open>
  A field is populated when it is there and has content: not \<^verbatim>\<open>null\<close> and not the empty
  string.
\<close>

fun has_content :: "json \<Rightarrow> bool" where
  "has_content JNull = False"
| "has_content (JStr s) = (s \<noteq> [])"
| "has_content _ = True"

definition populated :: "json \<Rightarrow> string \<Rightarrow> bool" where
  "populated b key = (case field b key of None \<Rightarrow> False | Some j \<Rightarrow> has_content j)"

text \<open>The two bodies, and the error envelope of an exception as \<^verbatim>\<open>res.send\<close> delivers it.\<close>

definition ok_body :: "config \<Rightarrow> jsval \<Rightarrow> json" where
  "ok_body cfg t =
     JObj ((''status'', JStr ''ok'') # (''database'', JStr (DB_NAME cfg)) #
           (case stringify t of None \<Rightarrow> [] | Some j \<Rightarrow> [(''serverTime'', j)]))"

definition error_body :: "error \<Rightarrow> json" where
  "error_body e = JObj [(''status'', JStr ''error''), (''message'', JStr (message e))]"

definition error_response :: "request \<Rightarrow> error \<Rightarrow> http_response" where
  "error_response rq e = res_send rq 500 (Some (error_body e))"

text \<open>What the output element displays: the loading text, a success or an error.\<close>

definition shows_loading :: "dom_node \<Rightarrow> bool" where
  "shows_loading node =
     (textContent node = loading_text \<and> ''success'' \<notin> set (classList node)
      \<and> ''error'' \<notin> set (classList node))"

definition shows_success :: "dom_node \<Rightarrow> string \<Rightarrow> bool" where
  "shows_success node text =
     (textContent node = text \<and> ''success'' \<in> set (classList node)
      \<and> ''error'' \<notin> set (classList node))"

definition shows_error :: "dom_node \<Rightarrow> string \<Rightarrow> bool" where
  "shows_error node text =
     (textContent node = text \<and> ''error'' \<in> set (classList node)
      \<and> ''success'' \<notin> set (classList node))"

section \<open>The handler, case by case\<close>

lemma bind_Inl [simp]: "bind (Inl e) f = Inl e"
  by (simp add: bind_def)

lemma bind_Inr [simp]: "bind (Inr x) f = f x"
  by (simp add: bind_def)

lemma try_catch_Inl [simp]: "try_catch (Inl e) h = h e"
  by (simp add: try_catch_def)

lemma try_catch_Inr [simp]: "try_catch (Inr x) h = Inr x"
  by (simp add: try_catch_def)

lemma bind_bind: "bind (bind m f) g = bind m (\<lambda>x. bind (f x) g)"
  by (cases m) simp_all

text \<open>What \<^verbatim>\<open>res.send\<close> delivers under the two status codes of the handler.\<close>

lemma res_send_200:
  "res_send rq 200 body =
     (if fresh_headers rq body then \<lparr>http_status = 304, http_body = None\<rparr>
      else \<lparr>http_status = 200, http_body = (if req_method rq = HEAD then None else body)\<rparr>)"
  by (simp add: res_send_def req_fresh_def Let_def)

lemma res_send_500:
  "res_send rq 500 body =
     \<lparr>http_status = 500, http_body = (if req_method rq = HEAD then None else body)\<rparr>"
  by (simp add: res_send_def req_fresh_def Let_def)

lemma fresh_headers_plain_get [simp]: "\<not> fresh_headers plain_get body"
  by (simp add: fresh_headers_def plain_get_def)

lemma res_send_plain_get_200 [simp]:
  "res_send plain_get 200 body = \<lparr>http_status = 200, http_body = body\<rparr>"
  by (simp add: res_send_200) (simp add: plain_get_def)

lemma res_send_plain_get_500 [simp]:
  "res_send plain_get 500 body = \<lparr>http_status = 500, http_body = body\<rparr>"
  by (simp add: res_send_500) (simp add: plain_get_def)

text \<open>The handler is its \<^verbatim>\<open>try\<close> block split at the last read.\<close>

lemma db_check_reading:
  "db_check cfg outcome s =
     try_catch
       (bind (probe_reading outcome) (\<lambda>server_time.
          res_json (VObj [(''status'', VStr ''ok''), (''database'', VStr (DB_NAME cfg)),
                          (''serverTime'', server_time)]) s))
       (\<lambda>e. res_json (error_envelope e)
              (res_status 500 (console_error ''Database check failed'' e s)))"
  by (simp add: db_check_def probe_reading_def ok_envelope_def bind_bind)

lemma db_check_thrown:
  assumes "sent s = None" and "probe_reading outcome = Inl e"
  shows "db_check cfg outcome s =
           Inr (s\<lparr>statusCode := 500,
                  sent := Some (error_response (req s) e),
                  console := console s @ [(''Database check failed'', e)]\<rparr>)"
  using assms
  by (simp add: db_check_reading res_json_def res_status_def console_error_def
      error_envelope_def error_response_def error_body_def res_send_500 Let_def)

lemma db_check_read:
  assumes "sent s = None" and "probe_reading outcome = Inr t"
  shows "db_check cfg outcome s =
           Inr (s\<lparr>statusCode := http_status (res_send (req s) (statusCode s) (Some (ok_body cfg t))),
                  sent := Some (res_send (req s) (statusCode s) (Some (ok_body cfg t)))\<rparr>)"
  using assms
  by (cases "stringify t") (simp_all add: db_check_reading res_json_def ok_body_def Let_def)

lemma probe_reading_Rejected [simp]: "probe_reading (Rejected e) = Inl e"
  by (simp add: probe_reading_def)

lemma handle_request_thrown:
  assumes "probe_reading outcome = Inl e"
  shows "handle_request cfg rq outcome log =
           Inr (Some (error_response rq e), log @ [(''Database check failed'', e)])"
  using db_check_thrown [of "fresh rq log" outcome e cfg] assms
  by (simp add: handle_request_def fresh_def)

lemma handle_request_read:
  assumes "probe_reading outcome = Inr t"
  shows "handle_request cfg rq outcome log =
           Inr (Some (res_send rq 200 (Some (ok_body cfg t))), log)"
  using db_check_read [of "fresh rq log" outcome t cfg] assms
  by (simp add: handle_request_def fresh_def)

lemma reply_thrown:
  "probe_reading outcome = Inl e \<Longrightarrow> reply cfg rq outcome = Some (error_response rq e)"
  by (simp add: reply_def handle_request_thrown)

lemma reply_read:
  "probe_reading outcome = Inr t \<Longrightarrow>
   reply cfg rq outcome = Some (res_send rq 200 (Some (ok_body cfg t)))"
  by (simp add: reply_def handle_request_read)

lemma envelope_thrown:
  "probe_reading outcome = Inl e \<Longrightarrow> envelope cfg outcome = Some (error_body e)"
  by (simp add: envelope_def reply_thrown error_response_def)

lemma envelope_read:
  "probe_reading outcome = Inr t \<Longrightarrow> envelope cfg outcome = Some (ok_body cfg t)"
  by (simp add: envelope_def reply_read)

lemma handle_request_reply:
  "handle_request cfg rq outcome log =
     Inr (reply cfg rq outcome,
          log @ (case probe_reading outcome of
                   Inl e \<Rightarrow> [(''Database check failed'', e)] | Inr t \<Rightarrow> []))"
  by (cases "probe_reading outcome")
     (simp_all add: handle_request_thrown handle_request_read reply_thrown reply_read)

text \<open>A list of requests: each answer is the reply to its own probe; only failures are logged.\<close>

lemma serve_replies:
  "serve cfg calls log =
     Inr (map (\<lambda>(rq, outcome). reply cfg rq outcome) calls,
          log @ concat (map (\<lambda>(rq, outcome). case probe_reading outcome of
                   Inl e \<Rightarrow> [(''Database check failed'', e)] | Inr t \<Rightarrow> []) calls))"
  by (induction calls arbitrary: log) (auto simp: handle_request_reply)

text \<open>The reads of a resolved probe, by the shape of what it resolved with.\<close>

lemma show_nat_0 [simp]: "show_nat 0 = ''0''"
  by code_simp

lemma probe_reading_Resolved:
  "probe_reading (Resolved result) =
     (let rows = own_property result ''rows''; row = element rows 0 in
      if nullish result then Inl (destructure_error (the (nullish_name result)) ''rows'')
      else if nullish rows then Inl (read_error (the (nullish_name rows)) ''0'')
      else if nullish row then Inl (read_error (the (nullish_name row)) ''server_time'')
      else Inr (own_property row ''server_time''))"
  by (auto simp: probe_reading_def destructure_def get_index_def get_property_def nullish_def Let_def
      split: option.splits)

lemma probe_reading_nullish:
  assumes "nullish result \<or> nullish (own_property result ''rows'')
           \<or> nullish (element (own_property result ''rows'') 0)"
  shows "\<exists>e. probe_reading (Resolved result) = Inl e"
  using assms by (auto simp: probe_reading_Resolved Let_def)

lemma probe_reading_not_nullish:
  assumes "\<not> nullish result" and "\<not> nullish (own_property result ''rows'')"
    and "\<not> nullish (element (own_property result ''rows'') 0)"
  shows "probe_reading (Resolved result)
         = Inr (own_property (element (own_property result ''rows'') 0) ''server_time'')"
  using assms by (simp add: probe_reading_Resolved Let_def)

text \<open>Only \<^verbatim>\<open>undefined\<close> has no JSON text.\<close>

lemma stringify_None: "stringify t = None \<longleftrightarrow> t = VUndefined"
proof (cases t)
  case (VDate stamp)
  then show ?thesis by (cases stamp) simp_all
qed simp_all

text \<open>A probe that reports a time, and one whose first row has another column only.\<close>

lemma probe_reading_example:
  "probe_reading (Resolved (VObj [(''rows'', VArr [VObj [(''server_time'', VStr stamp)]])]))
     = Inr (VStr stamp)"
  by (simp add: probe_reading_def destructure_def get_index_def get_property_def)

lemma probe_reading_other_column:
  "probe_reading (Resolved (VObj [(''rows'', VArr [VObj [(''now'', v)]])])) = Inr VUndefined"
  by (simp add: probe_reading_def destructure_def get_index_def get_property_def)

text \<open>What \<^verbatim>\<open>setStatus\<close> leaves in the element.\<close>

lemma setStatus_text [simp]: "textContent (setStatus node st txt) = txt"
  by (simp add: setStatus_def Let_def)

lemma setStatus_success [simp]:
  "''success'' \<in> set (classList (setStatus node st txt)) \<longleftrightarrow> st = Some ''success''"
  by (simp add: setStatus_def Let_def classList_add_def classList_remove_def)

lemma setStatus_error [simp]:
  "''error'' \<in> set (classList (setStatus node st txt)) \<longleftrightarrow> st = Some ''error''"
  by (simp add: setStatus_def Let_def classList_add_def classList_remove_def)

section \<open>The success envelope\<close>



text \<open>
  C8. On a successful probe the two details of the envelope have different origins: the
  \<^verbatim>\<open>serverTime\<close> field is the value the dependency reported, as \<^verbatim>\<open>JSON.stringify\<close>
  writes it (no field when it reported none), while the \<^verbatim>\<open>database\<close> field is the
  configured \<open>DB_NAME\<close>, whatever the dependency answered.
\<close>

theorem ok_envelope_sources:
  assumes "probe_reading outcome = Inr t"
  shows "envelope_field cfg outcome ''serverTime'' = stringify t
       \<and> envelope_field cfg outcome ''database'' = Some (JStr (DB_NAME cfg))"
  using assms by (simp add: envelope_field_def envelope_read ok_body_def split: option.splits)

theorem ok_envelope_sources_witness:
  "probe_reading (Resolved (VObj [(''rows'', VArr [VObj [(''server_time'', VStr ''2024-01-01T00:00:00Z'')]])]))
     = Inr (VStr ''2024-01-01T00:00:00Z'')
   \<and> envelope_field (load_config Map.empty)
       (Resolved (VObj [(''rows'', VArr [VObj [(''server_time'', VStr ''2024-01-01T00:00:00Z'')]])]))
       ''serverTime'' = Some (JStr ''2024-01-01T00:00:00Z'')
   \<and> envelope_field (load_config Map.empty)
       (Resolved (VObj [(''rows'', VArr [VObj [(''server_time'', VStr ''2024-01-01T00:00:00Z'')]])]))
       ''database'' = Some (JStr ''postgres'')"
  using ok_envelope_sources [of "Resolved (VObj [(''rows'', VArr [VObj [(''server_time'', VStr ''2024-01-01T00:00:00Z'')]])])"
      "VStr ''2024-01-01T00:00:00Z''" "load_config Map.empty"]
  by (simp add: probe_reading_example load_config_def env_or_def)

text \<open>
  The same answer of the dependency under two configurations: the \<^verbatim>\<open>database\<close> field
  follows the configuration, so it is not taken from the answer of the dependency.
\<close>

theorem database_from_config_counterexample:
  "envelope_field \<lparr>DB_HOST = ''db'', DB_USER = ''postgres'', DB_PASSWORD = ''postgres'', DB_NAME = ''alpha''\<rparr>
     (Resolved (VObj [(''rows'', VArr [VObj [(''server_time'', VStr ''2024-01-01T00:00:00Z'')]])]))
     ''database'' = Some (JStr ''alpha'')
   \<and> envelope_field \<lparr>DB_HOST = ''db'', DB_USER = ''postgres'', DB_PASSWORD = ''postgres'', DB_NAME = ''beta''\<rparr>
     (Resolved (VObj [(''rows'', VArr [VObj [(''server_time'', VStr ''2024-01-01T00:00:00Z'')]])]))
     ''database'' = Some (JStr ''beta'')"
  by (simp add: envelope_field_def envelope_read [OF probe_reading_example] ok_body_def)

text \<open>
  C10. The success branch sets no status code: it sends the envelope through
  \<^verbatim>\<open>res.json\<close> under the code the response has, which is 200 for a new response. So a
  success envelope goes out under status 200, unless Express finds the request fresh
  against it (\<^verbatim>\<open>If-None-Match\<close> holds \<^verbatim>\<open>*\<close> or the entity tag of the envelope, and there
  is no \<^verbatim>\<open>no-cache\<close>): then the response has status 304 and no body. An error envelope
  always goes out under status 500. The status code alone still tells the two apart:
  200 or 304 for a success, 500 for a failure.
\<close>

theorem status_code_tells_outcome:
  "(\<exists>r b. reply cfg rq outcome = Some r \<and> envelope cfg outcome = Some b \<and>
      (case probe_reading outcome of
         Inr t \<Rightarrow> field b ''status'' = Some (JStr ''ok'')
                 \<and> r = res_send rq 200 (Some b)
                 \<and> http_status r = (if fresh_headers rq (Some b) then 304 else 200)
                 \<and> http_body r = (if fresh_headers rq (Some b) \<or> req_method rq = HEAD
                                   then None else Some b)
       | Inl e \<Rightarrow> field b ''status'' = Some (JStr ''error'')
                 \<and> r = res_send rq 500 (Some b)
                 \<and> http_status r = 500
                 \<and> http_body r = (if req_method rq = HEAD then None else Some b)))
   \<and> statusCode (fresh rq log) = 200
   \<and> (\<forall>s t. sent s = None \<longrightarrow> probe_reading outcome = Inr t \<longrightarrow>
         (\<exists>s'. db_check cfg outcome s = Inr s'
               \<and> sent s' = Some (res_send (req s) (statusCode s) (envelope cfg outcome))))"
proof -
  have "\<exists>r b. reply cfg rq outcome = Some r \<and> envelope cfg outcome = Some b \<and>
      (case probe_reading outcome of
         Inr t \<Rightarrow> field b ''status'' = Some (JStr ''ok'')
                 \<and> r = res_send rq 200 (Some b)
                 \<and> http_status r = (if fresh_headers rq (Some b) then 304 else 200)
                 \<and> http_body r = (if fresh_headers rq (Some b) \<or> req_method rq = HEAD
                                   then None else Some b)
       | Inl e \<Rightarrow> field b ''status'' = Some (JStr ''error'')
                 \<and> r = res_send rq 500 (Some b)
                 \<and> http_status r = 500
                 \<and> http_body r = (if req_method rq = HEAD then None else Some b))"
  proof (cases "probe_reading outcome")
    case (Inl e)
    then show ?thesis
      by (simp add: reply_thrown envelope_thrown error_response_def error_body_def res_send_500)
  next
    case (Inr t)
    then show ?thesis
      by (simp add: reply_read envelope_read ok_body_def res_send_200)
  qed
  then show ?thesis
    by (simp add: fresh_def db_check_read envelope_read)
qed

theorem status_code_tells_outcome_witness:
  "(\<exists>r b. reply (load_config Map.empty) plain_get
        (Resolved (VObj [(''rows'', VArr [VObj [(''server_time'', VStr ''2024-01-01T00:00:00Z'')]])]))
        = Some r
        \<and> envelope (load_config Map.empty)
            (Resolved (VObj [(''rows'', VArr [VObj [(''server_time'', VStr ''2024-01-01T00:00:00Z'')]])]))
          = Some b
        \<and> field b ''status'' = Some (JStr ''ok'') \<and> http_status r = 200 \<and> http_body r = Some b)
   \<and> sent (fresh plain_get []) = None
   \<and> (\<exists>s'. db_check (load_config Map.empty)
        (Resolved (VObj [(''rows'', VArr [VObj [(''server_time'', VStr ''2024-01-01T00:00:00Z'')]])]))
        (fresh plain_get []) = Inr s'
        \<and> sent s' = Some (res_send plain_get 200 (envelope (load_config Map.empty)
             (Resolved (VObj [(''rows'', VArr [VObj [(''server_time'', VStr ''2024-01-01T00:00:00Z'')]])])))))"
proof -
  let ?probe = "Resolved (VObj [(''rows'', VArr [VObj [(''server_time'', VStr ''2024-01-01T00:00:00Z'')]])])"
  note inst = status_code_tells_outcome [of "load_config Map.empty" plain_get ?probe "[]"]
  have unsent: "sent (fresh plain_get []) = None"
    by (simp add: fresh_def)
  from inst have
    "\<exists>r b. reply (load_config Map.empty) plain_get ?probe = Some r
        \<and> envelope (load_config Map.empty) ?probe = Some b
        \<and> field b ''status'' = Some (JStr ''ok'') \<and> http_status r = 200 \<and> http_body r = Some b"
    by (simp add: probe_reading_example) (auto simp: plain_get_def)
  moreover from inst unsent have
    "\<exists>s'. db_check (load_config Map.empty) ?probe (fresh plain_get []) = Inr s'
        \<and> sent s' = Some (res_send (req (fresh plain_get [])) (statusCode (fresh plain_get []))
                            (envelope (load_config Map.empty) ?probe))"
    using probe_reading_example [of "''2024-01-01T00:00:00Z''"] by blast
  ultimately show ?thesis
    using unsent by (simp add: fresh_def)
qed

text \<open>
  Two conditional requests while the dependency is healthy, one with \<^verbatim>\<open>If-None-Match: *\<close>
  and one with the entity tag of the very envelope: each is answered with status 304 and
  no body, not with status 200.
\<close>

theorem conditional_get_counterexample:
  "reply (load_config Map.empty)
     \<lparr>req_method = GET, if_none_match = NoneMatchAny, no_cache = False\<rparr>
     (Resolved (VObj [(''rows'', VArr [VObj [(''server_time'', VStr ''2024-01-01T00:00:00Z'')]])]))
   = Some \<lparr>http_status = 304, http_body = None\<rparr>
   \<and> reply (load_config Map.empty)
     \<lparr>req_method = GET,
      if_none_match = NoneMatchTags
        [Some (JObj [(''status'', JStr ''ok''), (''database'', JStr ''postgres''),
                     (''serverTime'', JStr ''2024-01-01T00:00:00Z'')])],
      no_cache = False\<rparr>
     (Resolved (VObj [(''rows'', VArr [VObj [(''server_time'', VStr ''2024-01-01T00:00:00Z'')]])]))
   = Some \<lparr>http_status = 304, http_body = None\<rparr>"
  by (simp add: reply_def handle_request_def db_check_def ok_envelope_def destructure_def
      get_index_def get_property_def res_json_def res_send_def req_fresh_def fresh_headers_def
      fresh_def load_config_def env_or_def Let_def)

section \<open>Failures\<close>

text \<open>
  C2. When the probe fails (its promise is rejected with the error \<open>e\<close>), the handler
  hands the envelope \<^verbatim>\<open>{"status":"error","message": m}\<close>, where \<open>m\<close> is the message of
  \<open>e\<close>, to \<^verbatim>\<open>res.json\<close> under status 500 and logs the failure: the response has status
  500, and a \<^verbatim>\<open>GET\<close> request gets the envelope as its body. The status differs from that
  of a success: whenever the reads go through, the reply has status 200 or 304.
\<close>

theorem rejected_probe_response:
  "handle_request cfg rq (Rejected e) log =
     Inr (Some (res_send rq 500 (Some (JObj [(''status'', JStr ''error''),
                                            (''message'', JStr (message e))]))),
          log @ [(''Database check failed'', e)])
   \<and> http_status (res_send rq 500 (Some (JObj [(''status'', JStr ''error''),
                                              (''message'', JStr (message e))]))) = 500
   \<and> (req_method rq = GET \<longrightarrow>
        handle_request cfg rq (Rejected e) log =
          Inr (Some \<lparr>http_status = 500,
                     http_body = Some (JObj [(''status'', JStr ''error''),
                                             (''message'', JStr (message e))])\<rparr>,
               log @ [(''Database check failed'', e)]))
   \<and> (\<forall>rq' outcome t. probe_reading outcome = Inr t \<longrightarrow>
          (\<exists>r. reply cfg rq' outcome = Some r \<and> (http_status r = 200 \<or> http_status r = 304)
               \<and> http_status r \<noteq> 500))"
  by (simp add: handle_request_thrown error_response_def error_body_def reply_read res_send_500
      res_send_200)

theorem rejected_probe_response_witness:
  "handle_request (load_config Map.empty)
     \<lparr>req_method = GET, if_none_match = NoneMatchAbsent, no_cache = False\<rparr>
     (Rejected (Error ''connect ECONNREFUSED 127.0.0.1:5432'')) []
     = Inr (Some \<lparr>http_status = 500,
                  http_body = Some (JObj [(''status'', JStr ''error''),
                                          (''message'', JStr ''connect ECONNREFUSED 127.0.0.1:5432'')])\<rparr>,
            [(''Database check failed'', Error ''connect ECONNREFUSED 127.0.0.1:5432'')])
   \<and> (\<exists>r. reply (load_config Map.empty)
              \<lparr>req_method = GET, if_none_match = NoneMatchAbsent, no_cache = False\<rparr>
              (Resolved (VObj [(''rows'', VArr [VObj [(''server_time'', VStr ''2024-01-01T00:00:00Z'')]])]))
            = Some r \<and> http_status r = 200 \<and> http_status r \<noteq> 500)"
proof -
  let ?rq = "\<lparr>req_method = GET, if_none_match = NoneMatchAbsent, no_cache = False\<rparr>"
  let ?probe = "Resolved (VObj [(''rows'', VArr [VObj [(''server_time'', VStr ''2024-01-01T00:00:00Z'')]])])"
  note inst = rejected_probe_response [of "load_config Map.empty" ?rq
      "Error ''connect ECONNREFUSED 127.0.0.1:5432''" "[]"]
  from inst have rejected:
    "handle_request (load_config Map.empty) ?rq (Rejected (Error ''connect ECONNREFUSED 127.0.0.1:5432'')) []
     = Inr (Some \<lparr>http_status = 500,
                  http_body = Some (JObj [(''status'', JStr ''error''),
                                          (''message'', JStr ''connect ECONNREFUSED 127.0.0.1:5432'')])\<rparr>,
            [(''Database check failed'', Error ''connect ECONNREFUSED 127.0.0.1:5432'')])"
    by (simp add: res_send_500)
  from inst probe_reading_example [of "''2024-01-01T00:00:00Z''"]
  obtain r where r: "reply (load_config Map.empty) ?rq ?probe = Some r" "http_status r \<noteq> 500"
    by blast
  have "reply (load_config Map.empty) ?rq ?probe
          = Some (res_send ?rq 200 (Some (ok_body (load_config Map.empty) (VStr ''2024-01-01T00:00:00Z''))))"
    by (rule reply_read) (rule probe_reading_example)
  with r have "http_status r = 200"
    by (auto simp: res_send_200 fresh_headers_def)
  with r rejected show ?thesis
    by blast
qed

text \<open>
  C9. When the probe fails with the error \<open>e\<close>, the \<^verbatim>\<open>message\<close> field of the error
  envelope is the message of \<open>e\<close>, unchanged: it is non-empty exactly when the message of
  the underlying failure is.
\<close>

theorem error_message_passed_through:
  "envelope_field cfg (Rejected e) ''message'' = Some (JStr (message e))
   \<and> ((\<exists>m. envelope_field cfg (Rejected e) ''message'' = Some (JStr m) \<and> m \<noteq> [])
        \<longleftrightarrow> message e \<noteq> [])"
  by (simp add: envelope_field_def envelope_thrown error_body_def)

theorem error_message_passed_through_witness:
  "envelope_field (load_config Map.empty) (Rejected (Error ''password authentication failed''))
     ''message'' = Some (JStr ''password authentication failed'')"
  using error_message_passed_through [of "load_config Map.empty"
      "Error ''password authentication failed''"]
  by simp

text \<open>
  An error without a message (\<^verbatim>\<open>new Error()\<close> has the empty string as its message):
  the envelope carries the empty message.
\<close>

theorem empty_message_counterexample:
  "envelope_field (load_config Map.empty) (Rejected (Error [])) ''message'' = Some (JStr [])"
  by (simp add: envelope_field_def envelope_def reply_def handle_request_def db_check_def
      res_json_def res_send_def req_fresh_def res_status_def console_error_def error_envelope_def
      fresh_def plain_get_def Let_def)

text \<open>
  C5. No exception leaves the handler. Invoked on a response that has not been sent, the
  handler returns, for every outcome of the probe; and every exception \<open>e\<close> of the
  \<^verbatim>\<open>try\<close> block, be it the rejection of the probe or an error of reading its result, has
  been answered with the error envelope of \<open>e\<close> under status 500. (An exception is an
  \<^verbatim>\<open>Error\<close> instance here, so the \<^verbatim>\<open>catch\<close> block can always read its message.)
\<close>

theorem db_check_catches_all:
  assumes "sent s = None"
  shows "\<exists>s'. db_check cfg outcome s = Inr s' \<and>
           (\<forall>e. outcome = Rejected e \<or> probe_reading outcome = Inl e \<longrightarrow>
                  sent s' = Some (error_response (req s) e)
                  \<and> http_status (error_response (req s) e) = 500
                  \<and> (req_method (req s) = GET \<longrightarrow>
                       http_body (error_response (req s) e)
                         = Some (JObj [(''status'', JStr ''error''),
                                       (''message'', JStr (message e))])))"
proof (cases "probe_reading outcome")
  case (Inl e)
  with assms show ?thesis
    by (auto simp: db_check_thrown error_response_def error_body_def res_send_500)
next
  case (Inr t)
  with assms show ?thesis
    by (auto simp: db_check_read)
qed

theorem db_check_catches_all_witness:
  "sent (fresh plain_get []) = None
   \<and> (\<exists>s'. db_check (load_config Map.empty) (Rejected (Error ''Connection terminated unexpectedly''))
              (fresh plain_get []) = Inr s'
           \<and> sent s' = Some \<lparr>http_status = 500,
                              http_body = Some (JObj [(''status'', JStr ''error''),
                                 (''message'', JStr ''Connection terminated unexpectedly'')])\<rparr>)"
proof -
  have unsent: "sent (fresh plain_get []) = None"
    by (simp add: fresh_def)
  from db_check_catches_all [OF unsent, of "load_config Map.empty"
      "Rejected (Error ''Connection terminated unexpectedly'')"]
  obtain s' where
    "db_check (load_config Map.empty) (Rejected (Error ''Connection terminated unexpectedly''))
       (fresh plain_get []) = Inr s'"
    "sent s' = Some (error_response (req (fresh plain_get []))
                       (Error ''Connection terminated unexpectedly''))"
    by blast
  with unsent show ?thesis
    by (simp add: fresh_def error_response_def error_body_def)
qed

text \<open>
  C4. A malformed answer of the dependency is treated as a failure exactly when one of
  the three reads throws, that is when the result, its \<^verbatim>\<open>rows\<close> or the first row is
  \<^verbatim>\<open>undefined\<close> or \<^verbatim>\<open>null\<close> (an empty row set, for one): the handler then answers as it
  does to a probe rejected with that \<^verbatim>\<open>TypeError\<close>, error envelope and status 500. Any
  other answer gets the success envelope under status 200, with the \<^verbatim>\<open>serverTime\<close> field
  left out when the first row has no \<^verbatim>\<open>server_time\<close>.
\<close>

theorem malformed_result_handling:
  "(let rows = own_property result ''rows''; row = element rows 0 in
    if nullish result \<or> nullish rows \<or> nullish row
    then \<exists>e. probe_reading (Resolved result) = Inl e
           \<and> handle_request cfg rq (Resolved result) log = handle_request cfg rq (Rejected e) log
           \<and> handle_request cfg rq (Resolved result) log
               = Inr (Some (res_send rq 500 (Some (JObj [(''status'', JStr ''error''),
                                                        (''message'', JStr (message e))]))),
                      log @ [(''Database check failed'', e)])
    else handle_request cfg rq (Resolved result) log
           = Inr (Some (res_send rq 200
                    (Some (JObj ((''status'', JStr ''ok'') #
                            (''database'', JStr (DB_NAME cfg)) #
                            (case stringify (own_property row ''server_time'') of
                               None \<Rightarrow> [] | Some j \<Rightarrow> [(''serverTime'', j)]))))), log))"
proof (cases "nullish result \<or> nullish (own_property result ''rows'')
              \<or> nullish (element (own_property result ''rows'') 0)")
  case True
  from probe_reading_nullish [OF True]
  obtain e where "probe_reading (Resolved result) = Inl e" ..
  with True show ?thesis
    by (simp add: handle_request_thrown error_response_def error_body_def Let_def)
next
  case False
  then have "probe_reading (Resolved result)
             = Inr (own_property (element (own_property result ''rows'') 0) ''server_time'')"
    by (simp add: probe_reading_not_nullish)
  with False show ?thesis
    by (simp add: handle_request_read ok_body_def Let_def)
qed

theorem malformed_result_handling_witness:
  "nullish (element (own_property (VObj [(''rows'', VArr [])]) ''rows'') 0)
   \<and> (\<exists>e. probe_reading (Resolved (VObj [(''rows'', VArr [])])) = Inl e
      \<and> handle_request (load_config Map.empty) plain_get (Resolved (VObj [(''rows'', VArr [])])) []
          = handle_request (load_config Map.empty) plain_get (Rejected e) []
      \<and> handle_request (load_config Map.empty) plain_get (Resolved (VObj [(''rows'', VArr [])])) []
          = Inr (Some \<lparr>http_status = 500,
                       http_body = Some (JObj [(''status'', JStr ''error''),
                                               (''message'', JStr (message e))])\<rparr>,
                 [(''Database check failed'', e)]))"
  using malformed_result_handling [of "VObj [(''rows'', VArr [])]" "load_config Map.empty"
      plain_get "[]"]
  by (simp add: nullish_def Let_def)

text \<open>
  The first row is there and has a column, but not \<^verbatim>\<open>server_time\<close>: the handler answers
  with the success envelope under status 200, not with the error envelope.
\<close>

theorem missing_column_counterexample:
  "handle_request (load_config Map.empty)
     \<lparr>req_method = GET, if_none_match = NoneMatchAbsent, no_cache = False\<rparr>
     (Resolved (VObj [(''rows'', VArr [VObj [(''now'', VStr ''2024-01-01T00:00:00Z'')]])])) []
   = Inr (Some \<lparr>http_status = 200,
                http_body = Some (JObj [(''status'', JStr ''ok''),
                                        (''database'', JStr ''postgres'')])\<rparr>, [])"
  by (simp add: handle_request_def db_check_def ok_envelope_def destructure_def get_index_def
      get_property_def res_json_def res_send_def req_fresh_def fresh_headers_def fresh_def
      load_config_def env_or_def Let_def)

section \<open>The details an envelope carries\<close>

text \<open>
  C3. Every envelope of the handler has the fields of exactly one kind. A success envelope
  has \<^verbatim>\<open>"status":"ok"\<close> and the \<^verbatim>\<open>database\<close> field and no \<^verbatim>\<open>message\<close> field; its
  \<^verbatim>\<open>serverTime\<close> field is there unless the value read from the first row was
  \<^verbatim>\<open>undefined\<close>. An error envelope has \<^verbatim>\<open>"status":"error"\<close> and the \<^verbatim>\<open>message\<close> field
  and neither a \<^verbatim>\<open>database\<close> nor a \<^verbatim>\<open>serverTime\<close> field. So never are details of both
  kinds populated. A field that is there need not have content, though: \<^verbatim>\<open>database\<close> is
  populated exactly when the configured name is not empty, \<^verbatim>\<open>serverTime\<close> exactly when
  the value read has content, \<^verbatim>\<open>message\<close> exactly when the message of the error is not
  empty.
\<close>

theorem envelope_details:
  "\<exists>b. envelope cfg outcome = Some b
     \<and> (case probe_reading outcome of
          Inr t \<Rightarrow>
            field b ''status'' = Some (JStr ''ok'')
            \<and> has_field b ''database'' \<and> \<not> has_field b ''message''
            \<and> (has_field b ''serverTime'' \<longleftrightarrow> t \<noteq> VUndefined)
            \<and> (populated b ''database'' \<longleftrightarrow> DB_NAME cfg \<noteq> [])
            \<and> (populated b ''serverTime''
                 \<longleftrightarrow> (case stringify t of None \<Rightarrow> False | Some j \<Rightarrow> has_content j))
        | Inl e \<Rightarrow>
            field b ''status'' = Some (JStr ''error'')
            \<and> has_field b ''message''
            \<and> \<not> has_field b ''database'' \<and> \<not> has_field b ''serverTime''
            \<and> (populated b ''message'' \<longleftrightarrow> message e \<noteq> []))
     \<and> \<not> (populated b ''message'' \<and> (populated b ''database'' \<or> populated b ''serverTime''))"
proof (cases "probe_reading outcome")
  case (Inl e)
  then show ?thesis
    by (simp add: envelope_thrown error_body_def has_field_def populated_def)
next
  case (Inr t)
  then show ?thesis
    by (cases "stringify t")
       (auto simp: envelope_read ok_body_def has_field_def populated_def stringify_None)
qed

theorem envelope_details_witness:
  "\<exists>b. envelope (load_config Map.empty)
          (Resolved (VObj [(''rows'', VArr [VObj [(''server_time'', VStr ''2024-01-01T00:00:00Z'')]])]))
        = Some b
     \<and> field b ''status'' = Some (JStr ''ok'')
     \<and> has_field b ''database'' \<and> \<not> has_field b ''message'' \<and> has_field b ''serverTime''
     \<and> populated b ''database'' \<and> populated b ''serverTime'' \<and> \<not> populated b ''message''"
  using envelope_details [of "load_config Map.empty"
      "Resolved (VObj [(''rows'', VArr [VObj [(''server_time'', VStr ''2024-01-01T00:00:00Z'')]])])"]
  by (auto simp: probe_reading_example load_config_def env_or_def)

text \<open>
  Two envelopes that do not populate what the invariant asks for. After a failure whose
  error has no message, the envelope populates none of the three detail fields. When the
  first row has no \<^verbatim>\<open>server_time\<close>, the success envelope has no \<^verbatim>\<open>serverTime\<close> field,
  and no \<^verbatim>\<open>message\<close> field either.
\<close>

theorem unpopulated_envelope_counterexample:
  "envelope (load_config Map.empty) (Rejected (Error []))
     = Some (JObj [(''status'', JStr ''error''), (''message'', JStr [])])
   \<and> \<not> populated (JObj [(''status'', JStr ''error''), (''message'', JStr [])]) ''message''
   \<and> \<not> populated (JObj [(''status'', JStr ''error''), (''message'', JStr [])]) ''database''
   \<and> \<not> populated (JObj [(''status'', JStr ''error''), (''message'', JStr [])]) ''serverTime''
   \<and> envelope (load_config Map.empty)
        (Resolved (VObj [(''rows'', VArr [VObj [(''now'', VStr ''2024-01-01T00:00:00Z'')]])]))
     = Some (JObj [(''status'', JStr ''ok''), (''database'', JStr ''postgres'')])
   \<and> \<not> has_field (JObj [(''status'', JStr ''ok''), (''database'', JStr ''postgres'')]) ''serverTime''
   \<and> \<not> has_field (JObj [(''status'', JStr ''ok''), (''database'', JStr ''postgres'')]) ''message''"
  by (simp add: envelope_thrown envelope_read [OF probe_reading_other_column] error_body_def
      ok_body_def populated_def has_field_def load_config_def env_or_def)

section \<open>Requests are independent\<close>

text \<open>
  C6. \<open>N\<close> requests against a healthy dependency get \<open>N\<close> answers, the \<open>k\<close>-th being the
  reply to the \<open>k\<close>-th request and its probe alone: a function of the configuration, of
  that request and of that probe's outcome, each the success envelope of that probe sent
  under status 200 (which a \<^verbatim>\<open>GET\<close> request that is not fresh gets as it is). The state
  the process carries from one request to the next, its console, is left as it was.
\<close>

theorem serve_healthy:
  assumes "\<forall>(rq, outcome) \<in> set calls. healthy outcome"
  shows "serve cfg calls log = Inr (map (\<lambda>(rq, outcome). reply cfg rq outcome) calls, log)
       \<and> length (map (\<lambda>(rq, outcome). reply cfg rq outcome) calls) = length calls
       \<and> (\<forall>(rq, outcome) \<in> set calls.
             \<exists>b. envelope cfg outcome = Some b
                \<and> field b ''status'' = Some (JStr ''ok'')
                \<and> reply cfg rq outcome = Some (res_send rq 200 (Some b))
                \<and> (req_method rq = GET \<and> \<not> fresh_headers rq (Some b) \<longrightarrow>
                     reply cfg rq outcome = Some \<lparr>http_status = 200, http_body = Some b\<rparr>))"
proof -
  have quiet: "concat (map (\<lambda>(rq, outcome). case probe_reading outcome of
                   Inl e \<Rightarrow> [(''Database check failed'', e)] | Inr t \<Rightarrow> []) calls) = []"
    using assms by (induction calls) (auto simp: healthy_def split: sum.splits)
  have "\<exists>b. envelope cfg outcome = Some b
                \<and> field b ''status'' = Some (JStr ''ok'')
                \<and> reply cfg rq outcome = Some (res_send rq 200 (Some b))
                \<and> (req_method rq = GET \<and> \<not> fresh_headers rq (Some b) \<longrightarrow>
                     reply cfg rq outcome = Some \<lparr>http_status = 200, http_body = Some b\<rparr>)"
    if "(rq, outcome) \<in> set calls" for rq outcome
  proof -
    from that assms have "healthy outcome" by blast
    then obtain t where "probe_reading outcome = Inr t"
      by (auto simp: healthy_def split: sum.splits)
    then show ?thesis
      by (simp add: reply_read envelope_read ok_body_def res_send_200)
  qed
  with quiet show ?thesis
    by (auto simp: serve_replies)
qed

theorem serve_healthy_witness:
  "healthy (Resolved (VObj [(''rows'', VArr [VObj [(''server_time'', VStr ''2024-01-01T00:00:00Z'')]])]))
   \<and> healthy (Resolved (VObj [(''rows'', VArr [VObj [(''server_time'', VStr ''2024-01-01T00:00:01Z'')]])]))
   \<and> serve (load_config Map.empty)
       [(plain_get,
         Resolved (VObj [(''rows'', VArr [VObj [(''server_time'', VStr ''2024-01-01T00:00:00Z'')]])])),
        (plain_get,
         Resolved (VObj [(''rows'', VArr [VObj [(''server_time'', VStr ''2024-01-01T00:00:01Z'')]])]))] []
     = Inr ([Some \<lparr>http_status = 200,
                   http_body = Some (JObj [(''status'', JStr ''ok''), (''database'', JStr ''postgres''),
                                           (''serverTime'', JStr ''2024-01-01T00:00:00Z'')])\<rparr>,
             Some \<lparr>http_status = 200,
                   http_body = Some (JObj [(''status'', JStr ''ok''), (''database'', JStr ''postgres''),
                                           (''serverTime'', JStr ''2024-01-01T00:00:01Z'')])\<rparr>], [])"
  using serve_healthy [of
      "[(plain_get,
         Resolved (VObj [(''rows'', VArr [VObj [(''server_time'', VStr ''2024-01-01T00:00:00Z'')]])])),
        (plain_get,
         Resolved (VObj [(''rows'', VArr [VObj [(''server_time'', VStr ''2024-01-01T00:00:01Z'')]])]))]"
      "load_config Map.empty" "[]"]
  by (simp add: healthy_def probe_reading_example reply_read ok_body_def load_config_def env_or_def)

section \<open>The client reaches a terminal display\<close>

text \<open>
  C7. Every call of \<^verbatim>\<open>fetchJSON\<close>, from the first paint or from a click, first puts
  the loading text into its element; once the request has settled, in whichever way, the
  rest of the call returns without an exception, on whatever the document has become
  meanwhile, and the element then shows exactly one terminal rendering and not the
  loading state: the message of the error after a network failure, the status code and text
  after a response that is not \<^verbatim>\<open>ok\<close>, the message of the parse error after a body that
  is not JSON, each marked \<^verbatim>\<open>error\<close> and not \<^verbatim>\<open>success\<close>; and the pretty-printed
  payload, marked \<^verbatim>\<open>success\<close> and not \<^verbatim>\<open>error\<close>, otherwise.
\<close>

theorem fetchJSON_terminal:
  "(case call_of tr of (url, x) \<Rightarrow>
     shows_loading (node_of x (fetchJSON_begin x d))
     \<and> (\<forall>d'. \<exists>d''. fetchJSON_resume url x fetched d' = Inr d''
           \<and> \<not> shows_loading (node_of x d'')
           \<and> (case fetched of
                 Rejected e \<Rightarrow> shows_error (node_of x d'') (message e)
               | Resolved r \<Rightarrow>
                   if \<not> ok r
                   then shows_error (node_of x d'') (show_nat (status r) @ '' '' @ statusText r)
                   else (case json r of
                           Rejected e \<Rightarrow> shows_error (node_of x d'') (message e)
                         | Resolved payload \<Rightarrow>
                             shows_success (node_of x d'') (JSON_stringify_2 payload)))))"
proof -
  obtain url x where call: "call_of tr = (url, x)"
    by (cases "call_of tr")
  have loading: "shows_loading (node_of x (fetchJSON_begin x d))"
    by (cases x) (simp_all add: fetchJSON_begin_def shows_loading_def)
  have settled: "\<exists>d''. fetchJSON_resume url x fetched d' = Inr d''
           \<and> \<not> shows_loading (node_of x d'')
           \<and> (case fetched of
                 Rejected e \<Rightarrow> shows_error (node_of x d'') (message e)
               | Resolved r \<Rightarrow>
                   if \<not> ok r
                   then shows_error (node_of x d'') (show_nat (status r) @ '' '' @ statusText r)
                   else (case json r of
                           Rejected e \<Rightarrow> shows_error (node_of x d'') (message e)
                         | Resolved payload \<Rightarrow>
                             shows_success (node_of x d'') (JSON_stringify_2 payload)))" for d'
  proof (cases fetched)
    case (Rejected e)
    then show ?thesis
      by (cases x)
         (simp_all add: fetchJSON_resume_def console_error_client_def shows_loading_def
            shows_error_def)
  next
    case (Resolved r)
    show ?thesis
    proof (cases "ok r")
      case False
      with Resolved show ?thesis
        by (cases x)
           (simp_all add: fetchJSON_resume_def check_ok_def console_error_client_def
              shows_loading_def shows_error_def)
    next
      case True
      with Resolved show ?thesis
        by (cases x; cases "json r")
           (simp_all add: fetchJSON_resume_def check_ok_def console_error_client_def
              shows_loading_def shows_error_def shows_success_def)
    qed
  qed
  from call loading settled show ?thesis
    by simp
qed

theorem fetchJSON_terminal_witness:
  "shows_loading (node_of DbOutput (fetchJSON_begin DbOutput
       \<lparr>helloOutput = \<lparr>classList = [''output''], textContent = []\<rparr>,
        dbOutput = \<lparr>classList = [''output'', ''error''], textContent = ''500 Internal Server Error''\<rparr>,
        browser_console = []\<rparr>))
   \<and> (\<exists>d''. fetchJSON ''/db-check'' DbOutput (Rejected (Error ''Failed to fetch''))
              \<lparr>helloOutput = \<lparr>classList = [''output''], textContent = []\<rparr>,
               dbOutput = \<lparr>classList = [''output'', ''error''], textContent = ''500 Internal Server Error''\<rparr>,
               browser_console = []\<rparr> = Inr d''
           \<and> \<not> shows_loading (node_of DbOutput d'')
           \<and> shows_error (node_of DbOutput d'') ''Failed to fetch'')"
proof -
  let ?d = "\<lparr>helloOutput = \<lparr>classList = [''output''], textContent = []\<rparr>,
             dbOutput = \<lparr>classList = [''output'', ''error''],
                          textContent = ''500 Internal Server Error''\<rparr>,
             browser_console = []\<rparr>"
  from fetchJSON_terminal [where tr = "Click DbOutput" and d = ?d
      and fetched = "Rejected (Error ''Failed to fetch'')"]
  have loading: "shows_loading (node_of DbOutput (fetchJSON_begin DbOutput ?d))"
    and settled: "\<forall>d'. \<exists>d''. fetchJSON_resume ''/db-check'' DbOutput
                     (Rejected (Error ''Failed to fetch'')) d' = Inr d''
                   \<and> \<not> shows_loading (node_of DbOutput d'')
                   \<and> shows_error (node_of DbOutput d'') ''Failed to fetch''"
    by simp_all
  from settled have
    "\<exists>d''. fetchJSON_resume ''/db-check'' DbOutput (Rejected (Error ''Failed to fetch''))
             (fetchJSON_begin DbOutput ?d) = Inr d''
           \<and> \<not> shows_loading (node_of DbOutput d'')
           \<and> shows_error (node_of DbOutput d'') ''Failed to fetch''"
    by (rule spec)
  with loading show ?thesis
    by (simp only: fetchJSON_def)
qed

end
